theory Spec2Isabelle
  imports Main "HOL-Library.AList" "HOL-Library.Sublist"
begin

section \<open>Python values\<close>

text \<open>
  A Python \<open>str\<close> is a sequence of Unicode code points: \<open>len\<close> and slicing count
  code points, and the literals of \<open>main.py\<close> hold emoji. A string is therefore a
  list of code points (natural numbers below \<open>0x110000\<close>); \<open>lit\<close> reads an ASCII
  literal.
\<close>

type_synonym pystr = "nat list"

definition lit :: "string \<Rightarrow> pystr" where
  "lit s = map of_char s"

text \<open>\<open>str(n)\<close> of an integer: its decimal digits, with a minus sign when negative.\<close>

fun digits_nat :: "nat \<Rightarrow> pystr" where
  "digits_nat n = (if n < 10 then [48 + n] else digits_nat (n div 10) @ [48 + n mod 10])"

declare digits_nat.simps [simp del]

definition str_int :: "int \<Rightarrow> pystr" where
  "str_int i = (if i < 0 then 45 # digits_nat (nat (- i)) else digits_nat (nat i))"

text \<open>
  \<open>s.replace(c, new)\<close> for a one-character \<open>c\<close>: every occurrence of \<open>c\<close> is
  replaced, every other character is kept.
\<close>

definition replace_char :: "nat \<Rightarrow> pystr \<Rightarrow> pystr \<Rightarrow> pystr" where
  "replace_char c new s = concat (map (\<lambda>x. if x = c then new else [x]) s)"

text \<open>\<open>sep.join(xs)\<close>.\<close>

fun join :: "pystr \<Rightarrow> pystr list \<Rightarrow> pystr" where
  "join sep [] = []"
| "join sep [x] = x"
| "join sep (x # y # ys) = x @ sep @ join sep (y # ys)"

text \<open>
  The values the program handles (what \<open>json.loads\<close> returns, and what the report
  holds): \<open>None\<close>, booleans, integers, strings, lists, and dictionaries, which keep
  their insertion order and are association lists with distinct keys. JSON numbers
  with a fraction are left out: no field the program reads holds one.
\<close>

datatype json =
    JNull
  | JBool bool
  | JInt int
  | JStr pystr
  | JList "json list"
  | JObj "(pystr \<times> json) list"

type_synonym dict = "(pystr \<times> json) list"

text \<open>Python's truth value of an object, as \<open>if x:\<close> tests it.\<close>

fun truthy :: "json \<Rightarrow> bool" where
  "truthy JNull = False"
| "truthy (JBool b) = b"
| "truthy (JInt i) = (i \<noteq> 0)"
| "truthy (JStr s) = (s \<noteq> [])"
| "truthy (JList xs) = (xs \<noteq> [])"
| "truthy (JObj kvs) = (kvs \<noteq> [])"

text \<open>\<open>d.get(k, default)\<close>, and \<open>d[k] = v\<close> (a new key goes last).\<close>

definition dict_get :: "dict \<Rightarrow> pystr \<Rightarrow> json \<Rightarrow> json" where
  "dict_get d k dflt = (case map_of d k of None \<Rightarrow> dflt | Some v \<Rightarrow> v)"

definition dict_set :: "dict \<Rightarrow> pystr \<Rightarrow> json \<Rightarrow> dict" where
  "dict_set d k v = AList.update k v d"

text \<open>
  Exceptions: the class, and the text \<open>str(e)\<close> gives. \<open>RequestsJSONDecodeError\<close>
  is the class recent versions of \<open>requests\<close> raise from \<open>response.json()\<close>; it
  inherits from both \<open>RequestException\<close> and \<open>json.JSONDecodeError\<close>.
\<close>

datatype exn_class =
    NumberParseException
  | ValueError
  | RequestException
  | JSONDecodeError
  | RequestsJSONDecodeError
  | TypeError
  | AttributeError
  | UnicodeEncodeError
  | OtherException

type_synonym py_exn = "exn_class \<times> pystr"

fun isinstance_RequestException :: "py_exn \<Rightarrow> bool" where
  "isinstance_RequestException (c, m) = (c = RequestException \<or> c = RequestsJSONDecodeError)"

fun isinstance_JSONDecodeError :: "py_exn \<Rightarrow> bool" where
  "isinstance_JSONDecodeError (c, m) = (c = JSONDecodeError \<or> c = RequestsJSONDecodeError)"

text \<open>
  \<open>s in x\<close> for a string \<open>s\<close>: membership in a list (by \<open>==\<close>), substring of a
  string, key of a dictionary; any other \<open>x\<close> is not iterable.
\<close>

fun str_in :: "pystr \<Rightarrow> json \<Rightarrow> py_exn + bool" where
  "str_in s (JList xs) = Inr (JStr s \<in> set xs)"
| "str_in s (JStr t) = Inr (sublist s t)"
| "str_in s (JObj kvs) = Inr (s \<in> set (map fst kvs))"
| "str_in s JNull = Inl (TypeError, lit ''argument of type 'NoneType' is not iterable'')"
| "str_in s (JBool b) = Inl (TypeError, lit ''argument of type 'bool' is not iterable'')"
| "str_in s (JInt i) = Inl (TypeError, lit ''argument of type 'int' is not iterable'')"

section \<open>Breach severity\<close>

text \<open>
  \<open>PhoneOSINT._calculate_breach_severity\<close>: five tests in sequence, each assigning the
  variable \<open>severity\<close> when it fires. The membership test on \<open>DataClasses\<close> is the one
  step that can raise.
\<close>

definition calculate_breach_severity :: "dict \<Rightarrow> py_exn + pystr" where
  "calculate_breach_severity breach =
    (let severity = lit ''Medium'';
         severity = (if truthy (dict_get breach (lit ''IsVerified'') (JBool False))
                     then lit ''High'' else severity)
     in case str_in (lit ''Password'') (dict_get breach (lit ''DataClasses'') (JList [])) of
          Inl e \<Rightarrow> Inl e
        | Inr has_password \<Rightarrow>
            (let severity = (if has_password then lit ''Critical'' else severity);
                 severity = (if truthy (dict_get breach (lit ''IsSensitive'') (JBool False))
                             then lit ''Critical'' else severity);
                 severity = (if truthy (dict_get breach (lit ''IsFabricated'') (JBool False))
                             then lit ''Low'' else severity);
                 severity = (if truthy (dict_get breach (lit ''IsRetired'') (JBool False))
                             then lit ''Low'' else severity)
             in Inr severity))"

text \<open>
  The rule table as the specification words it: start at Medium, then apply the rules
  in order, a later rule that fires overriding the tag.
\<close>

definition severity_rules :: "bool \<Rightarrow> bool \<Rightarrow> bool \<Rightarrow> bool \<Rightarrow> bool \<Rightarrow> (bool \<times> string) list" where
  "severity_rules is_verified has_password is_sensitive is_fabricated is_retired =
    [(is_verified, ''High''), (has_password, ''Critical''), (is_sensitive, ''Critical''),
     (is_fabricated, ''Low''), (is_retired, ''Low'')]"

definition apply_rules :: "(bool \<times> string) list \<Rightarrow> string" where
  "apply_rules rules = fold (\<lambda>(fires, tag) severity. if fires then tag else severity) rules ''Medium''"

text \<open>The five observations of a record that the rules read.\<close>

definition IsVerified :: "dict \<Rightarrow> bool" where
  "IsVerified breach = truthy (dict_get breach (lit ''IsVerified'') (JBool False))"

definition has_Password :: "dict \<Rightarrow> bool" where
  "has_Password breach =
     (case str_in (lit ''Password'') (dict_get breach (lit ''DataClasses'') (JList [])) of
        Inr b \<Rightarrow> b
      | Inl e \<Rightarrow> False)"

definition IsSensitive :: "dict \<Rightarrow> bool" where
  "IsSensitive breach = truthy (dict_get breach (lit ''IsSensitive'') (JBool False))"

definition IsFabricated :: "dict \<Rightarrow> bool" where
  "IsFabricated breach = truthy (dict_get breach (lit ''IsFabricated'') (JBool False))"

definition IsRetired :: "dict \<Rightarrow> bool" where
  "IsRetired breach = truthy (dict_get breach (lit ''IsRetired'') (JBool False))"

text \<open>
  A record whose \<open>DataClasses\<close> field is absent or a container (a list, as the
  breach API sends it, or a string or a dictionary): the membership test is defined.
\<close>

definition data_classes_iterable :: "dict \<Rightarrow> bool" where
  "data_classes_iterable breach =
     (case dict_get breach (lit ''DataClasses'') (JList []) of
        JList xs \<Rightarrow> True
      | JStr t \<Rightarrow> True
      | JObj kvs \<Rightarrow> True
      | _ \<Rightarrow> False)"

section \<open>The environment\<close>

text \<open>
  The program calls the \<open>phonenumbers\<close> library, \<open>requests\<close>, the search provider,
  the clock and the resolver. None of them is part of the repository: they are the
  fields of an environment record. A parsed number is a value of the library's own
  type \<open>'pn\<close>. Parsing raises on a string that is no phone number; the lookups and
  formats of a parsed number are pure functions of it.
\<close>

datatype number_format = E164 | INTERNATIONAL | NATIONAL

datatype phone_number_type = FIXED_LINE | MOBILE | OTHER_TYPE

record http_response =
  status_code :: int
  resp_text :: pystr
  resp_json :: "py_exn + json"

text \<open>
  \<open>search\<close> is a generator: its value is the list of URLs it yields, and the
  exception that ends the iteration when it fails. \<open>now\<close> is the formatted clock at
  its first and second reading.
\<close>

record 'pn env =
  parse :: "pystr \<Rightarrow> py_exn + 'pn"
  is_valid_number :: "'pn \<Rightarrow> bool"
  is_possible_number :: "'pn \<Rightarrow> bool"
  name_for_number :: "'pn \<Rightarrow> pystr"
  description_for_number :: "'pn \<Rightarrow> pystr"
  time_zones_for_number :: "'pn \<Rightarrow> pystr list"
  number_type :: "'pn \<Rightarrow> phone_number_type"
  format_number :: "'pn \<Rightarrow> number_format \<Rightarrow> pystr"
  country_code :: "'pn \<Rightarrow> int"
  national_number :: "'pn \<Rightarrow> int"
  extension :: "'pn \<Rightarrow> pystr option"
  requests_get :: "pystr \<Rightarrow> (pystr \<times> pystr) list \<Rightarrow> int \<Rightarrow> py_exn + http_response"
  search :: "pystr \<Rightarrow> int \<Rightarrow> int \<Rightarrow> int \<Rightarrow> pystr list \<times> py_exn option"
  now :: "nat \<Rightarrow> pystr"
  gethostname :: "py_exn + pystr"
  gethostbyname :: "pystr \<Rightarrow> py_exn + pystr"

section \<open>The PhoneOSINT object\<close>

text \<open>
  The instance fields of \<open>PhoneOSINT\<close>, and the trace of its effects: the lines
  printed on the console, the HTTP requests issued (URL, headers, timeout) and the
  calls of the search provider (query, \<open>num_results\<close>, \<open>stop\<close>, \<open>pause\<close>).
\<close>

record 'pn PhoneOSINT =
  phone_number :: pystr
  parsed_number :: "'pn option"
  basic_info :: dict
  social_media_results :: dict
  breach_results :: json
  google_results :: "json list"
  reverse_lookup_results :: "json list"
  console :: "pystr list"
  http_log :: "(pystr \<times> (pystr \<times> pystr) list \<times> int) list"
  search_log :: "(pystr \<times> int \<times> int \<times> int) list"

text \<open>
  \<open>_parse_number\<close>: the parsed value is assigned before the validity test, so the
  \<open>ValueError\<close> raised for a number that is not valid is caught with the field
  already set; both exceptions only print a line.
\<close>

definition parse_error_line :: "py_exn \<Rightarrow> pystr" where
  "parse_error_line e = lit ''[bold red]Error parsing phone number: '' @ snd e @ lit ''[/]''"

definition parse_number :: "'pn env \<Rightarrow> 'pn PhoneOSINT \<Rightarrow> 'pn PhoneOSINT" where
  "parse_number env self =
     (case parse env (phone_number self) of
        Inl e \<Rightarrow> self\<lparr>console := console self @ [parse_error_line e]\<rparr>
      | Inr p \<Rightarrow>
          (let self = self\<lparr>parsed_number := Some p\<rparr>
           in if \<not> is_valid_number env p
              then self\<lparr>console := console self
                     @ [parse_error_line (ValueError, lit ''Invalid phone number'')]\<rparr>
              else self))"

text \<open>\<open>__init__\<close>.\<close>

definition init :: "'pn env \<Rightarrow> pystr \<Rightarrow> 'pn PhoneOSINT" where
  "init env phone =
     parse_number env
       \<lparr>phone_number = phone, parsed_number = None, basic_info = [],
        social_media_results = [], breach_results = JObj [], google_results = [],
        reverse_lookup_results = [], console = [], http_log = [], search_log = []\<rparr>"

subsection \<open>Basic information\<close>

text \<open>\<open>x or d\<close> for strings.\<close>

definition or_str :: "pystr \<Rightarrow> pystr \<Rightarrow> pystr" where
  "or_str x d = (if x = [] then d else x)"

definition yes_str :: pystr where
  "yes_str = 0x2705 # lit '' Yes''"

definition no_str :: pystr where
  "no_str = 0x274C # lit '' No''"

definition get_region_details :: "pystr \<Rightarrow> dict" where
  "get_region_details location =
     [(lit ''Region'', JStr location),
      (lit ''Estimated Coordinates'', JStr (lit ''Not available'')),
      (lit ''Area Code Info'', JStr (lit ''Not available''))]"

definition invalid_phone_number :: dict where
  "invalid_phone_number = [(lit ''Error'', JStr (lit ''Invalid phone number''))]"

text \<open>
  \<open>get_basic_info\<close>. Its handler catches failures of the library lookups, which the
  environment gives as pure functions, so the handler has no branch here.
\<close>

definition get_basic_info :: "'pn env \<Rightarrow> 'pn PhoneOSINT \<Rightarrow> dict \<times> 'pn PhoneOSINT" where
  "get_basic_info env self =
     (case parsed_number self of
        None \<Rightarrow> (invalid_phone_number, self)
      | Some p \<Rightarrow>
          (let valid = is_valid_number env p;
               possible = is_possible_number env p;
               number_carrier = or_str (name_for_number env p) (lit ''Unknown'');
               location = or_str (description_for_number env p) (lit ''Unknown'');
               time_zones = or_str (join (lit '', '') (time_zones_for_number env p)) (lit ''Unknown'');
               number_type = (if number_type env p = MOBILE then lit ''Mobile'' else lit ''Fixed line'');
               info =
                 [(lit ''International Format'', JStr (format_number env p INTERNATIONAL)),
                  (lit ''National Format'', JStr (format_number env p NATIONAL)),
                  (lit ''E164 Format'', JStr (format_number env p E164)),
                  (lit ''Carrier'', JStr number_carrier),
                  (lit ''Location'', JStr location),
                  (lit ''Time Zone'', JStr time_zones),
                  (lit ''Number Type'', JStr number_type),
                  (lit ''Valid Number'', JStr (if valid then yes_str else no_str)),
                  (lit ''Possible Number'', JStr (if possible then yes_str else no_str)),
                  (lit ''Country Code'', JInt (country_code env p)),
                  (lit ''National Number'', JInt (national_number env p)),
                  (lit ''Extension'',
                     JStr (case extension env p of
                             None \<Rightarrow> lit ''None''
                           | Some x \<Rightarrow> or_str x (lit ''None'')))];
               info = (if location \<noteq> lit ''Unknown''
                       then dict_set info (lit ''Region Details'') (JObj (get_region_details location))
                       else info);
               self = self\<lparr>basic_info := info\<rparr>
           in (basic_info self, self)))"

subsection \<open>Social media links\<close>

text \<open>
  \<open>urllib.parse.quote\<close> with its default \<open>safe = '/'\<close>: the string is encoded as
  UTF-8 (a lone surrogate raises), and every byte that is not a letter, a digit or one
  of \<open>_ . - ~ /\<close> becomes \<open>%XX\<close> in upper-case hexadecimal.
\<close>

definition utf8 :: "nat \<Rightarrow> py_exn + nat list" where
  "utf8 c =
     (if c < 0x80 then Inr [c]
      else if c < 0x800 then Inr [0xC0 + c div 64, 0x80 + c mod 64]
      else if 0xD800 \<le> c \<and> c \<le> 0xDFFF
        then Inl (UnicodeEncodeError, lit ''surrogates not allowed'')
      else if c < 0x10000
        then Inr [0xE0 + c div 4096, 0x80 + (c div 64) mod 64, 0x80 + c mod 64]
      else Inr [0xF0 + c div 262144, 0x80 + (c div 4096) mod 64,
                0x80 + (c div 64) mod 64, 0x80 + c mod 64])"

fun encode_utf8 :: "pystr \<Rightarrow> py_exn + nat list" where
  "encode_utf8 [] = Inr []"
| "encode_utf8 (c # cs) =
     (case utf8 c of
        Inl e \<Rightarrow> Inl e
      | Inr bs \<Rightarrow> (case encode_utf8 cs of Inl e \<Rightarrow> Inl e | Inr rest \<Rightarrow> Inr (bs @ rest)))"

definition always_safe :: "nat \<Rightarrow> bool" where
  "always_safe b =
     ((65 \<le> b \<and> b \<le> 90) \<or> (97 \<le> b \<and> b \<le> 122) \<or> (48 \<le> b \<and> b \<le> 57)
      \<or> b = 95 \<or> b = 46 \<or> b = 45 \<or> b = 126)"

definition hex_digit :: "nat \<Rightarrow> nat" where
  "hex_digit d = (if d < 10 then 48 + d else 55 + d)"

definition quote_byte :: "nat \<Rightarrow> pystr" where
  "quote_byte b =
     (if always_safe b \<or> b = 47 then [b] else [37, hex_digit (b div 16), hex_digit (b mod 16)])"

definition quote :: "pystr \<Rightarrow> py_exn + pystr" where
  "quote s = (case encode_utf8 s of Inl e \<Rightarrow> Inl e | Inr bs \<Rightarrow> Inr (concat (map quote_byte bs)))"

text \<open>\<open>self.phone_number.replace("+", "").replace(" ", "")\<close>.\<close>

definition clean_number :: "pystr \<Rightarrow> pystr" where
  "clean_number phone = replace_char 32 [] (replace_char 43 [] phone)"

text \<open>
  The catalogue of \<open>search_social_media\<close>, in the order of the source. \<open>quoted\<close> is
  \<open>quote(formatted_number)\<close>, \<open>clean\<close> is \<open>clean_number\<close>. Each key is an emoji, a
  space and the platform's name.
\<close>

definition social_platforms :: "pystr \<Rightarrow> pystr \<Rightarrow> (pystr \<times> pystr) list" where
  "social_platforms quoted clean =
     [(0x1F4D8 # lit '' Facebook'', lit ''https://www.facebook.com/search/top/?q='' @ quoted),
      (0x1F4AC # lit '' WhatsApp'', lit ''https://wa.me/'' @ clean),
      (0x1F426 # lit '' x'', lit ''https://x.com/search?q='' @ quoted @ lit ''&src=typed_query''),
      (0x1F4F8 # lit '' Instagram'', lit ''https://www.instagram.com/search/top/?q='' @ quoted),
      (0x1F4DE # lit '' Truecaller'', lit ''https://www.truecaller.com/search/'' @ quoted),
      (0x2708 # 0xFE0F # lit '' Telegram'', lit ''https://t.me/'' @ clean),
      (0x1F4F1 # lit '' Viber'', lit ''viber://add?number='' @ clean),
      (0x1F454 # lit '' LinkedIn'',
         lit ''https://www.linkedin.com/search/results/all/?keywords='' @ quoted),
      (0x1F4F9 # lit '' TikTok'', lit ''https://www.tiktok.com/search?q='' @ quoted),
      (0x1F50E # lit '' Snapchat'', lit ''https://www.snapchat.com/add/'' @ clean),
      (0x1F3B5 # lit '' WeChat'', lit ''weixin://dl/add?'' @ clean)]"

text \<open>
  \<open>search_social_media\<close>. The loop stores each link in \<open>self.social_media_results\<close>;
  its handler guards \<open>platform.split()[1]\<close>, which every key of the catalogue has, so
  the handler has no branch here. Building the catalogue raises when \<open>quote\<close> does.
\<close>

definition search_social_media ::
  "'pn env \<Rightarrow> 'pn PhoneOSINT \<Rightarrow> (py_exn + dict) \<times> 'pn PhoneOSINT" where
  "search_social_media env self =
     (case parsed_number self of
        None \<Rightarrow> (Inr invalid_phone_number, self)
      | Some p \<Rightarrow>
          (let clean = clean_number (phone_number self);
               formatted_number = format_number env p E164
           in case quote formatted_number of
                Inl e \<Rightarrow> (Inl e, self)
              | Inr quoted \<Rightarrow>
                  (let self = self\<lparr>social_media_results :=
                         fold (\<lambda>(platform, url) results. dict_set results platform (JStr url))
                           (social_platforms quoted clean) (social_media_results self)\<rparr>
                   in (Inr (social_media_results self), self))))"

subsection \<open>Breach check\<close>

text \<open>
  The loop of \<open>check_breaches\<close> over the decoded body: \<open>breach.get\<close> exists on a
  dictionary only, and the severity is stored under \<open>'Severity'\<close>. The loop stops at
  the first exception, with the records before it already annotated.
\<close>

fun type_name :: "json \<Rightarrow> string" where
  "type_name JNull = ''NoneType''"
| "type_name (JBool b) = ''bool''"
| "type_name (JInt i) = ''int''"
| "type_name (JStr s) = ''str''"
| "type_name (JList xs) = ''list''"
| "type_name (JObj kvs) = ''dict''"

definition no_attribute_get :: "json \<Rightarrow> py_exn" where
  "no_attribute_get x =
     (AttributeError,
      [39] @ lit (type_name x) @ [39] @ lit '' object has no attribute '' @ [39] @ lit ''get'' @ [39])"

definition not_iterable :: "json \<Rightarrow> py_exn" where
  "not_iterable x = (TypeError, [39] @ lit (type_name x) @ [39] @ lit '' object is not iterable'')"

fun severity_loop :: "json list \<Rightarrow> json list \<times> py_exn option" where
  "severity_loop [] = ([], None)"
| "severity_loop (JObj breach # rest) =
     (case calculate_breach_severity breach of
        Inl e \<Rightarrow> (JObj breach # rest, Some e)
      | Inr severity \<Rightarrow>
          (case severity_loop rest of
             (rest', r) \<Rightarrow> (JObj (dict_set breach (lit ''Severity'') (JStr severity)) # rest', r)))"
| "severity_loop (x # rest) = (x # rest, Some (no_attribute_get x))"

text \<open>
  Iterating the decoded body: a list gives its elements, a dictionary its keys and a
  string its characters (strings, which have no \<open>get\<close>); anything else is not
  iterable.
\<close>

fun annotate_breaches :: "json \<Rightarrow> json \<times> py_exn option" where
  "annotate_breaches (JList bs) = (case severity_loop bs of (bs', r) \<Rightarrow> (JList bs', r))"
| "annotate_breaches (JObj []) = (JObj [], None)"
| "annotate_breaches (JObj ((k, v) # kvs)) = (JObj ((k, v) # kvs), Some (no_attribute_get (JStr k)))"
| "annotate_breaches (JStr []) = (JStr [], None)"
| "annotate_breaches (JStr (c # s)) = (JStr (c # s), Some (no_attribute_get (JStr [c])))"
| "annotate_breaches x = (x, Some (not_iterable x))"

definition skipped :: json where
  "skipped = JObj [(lit ''Status'', JStr (lit ''Skipped - No HIBP API key provided''))]"

definition not_found :: json where
  "not_found =
     JObj [(lit ''Status'', JStr (0x2705 # lit '' Phone number not found in any breaches''))]"

definition body_excerpt :: "pystr \<Rightarrow> pystr" where
  "body_excerpt body = (if length body > 200 then take 200 body @ lit ''...'' else body)"

definition http_error :: "http_response \<Rightarrow> json" where
  "http_error response =
     JObj [(lit ''Error'', JStr (lit ''HTTP '' @ str_int (status_code response))),
           (lit ''Details'', JStr (body_excerpt (resp_text response)))]"

definition breach_url :: "pystr \<Rightarrow> pystr" where
  "breach_url clean =
     lit ''https://haveibeenpwned.com/api/v3/breachedaccount/'' @ clean
       @ lit ''?truncateResponse=false''"

text \<open>
  The two handlers of \<open>check_breaches\<close>, tried in the order of the source; an
  exception of any other class leaves the method.
\<close>

definition breach_handlers ::
  "py_exn \<Rightarrow> 'pn PhoneOSINT \<Rightarrow> (py_exn + json) \<times> 'pn PhoneOSINT" where
  "breach_handlers e self =
     (if isinstance_RequestException e then
        (let self = self\<lparr>breach_results :=
               JObj [(lit ''Error'', JStr (lit ''Request failed: '' @ snd e))]\<rparr>
         in (Inr (breach_results self), self))
      else if isinstance_JSONDecodeError e then
        (let self = self\<lparr>breach_results :=
               JObj [(lit ''Error'', JStr (lit ''Invalid JSON response''))]\<rparr>
         in (Inr (breach_results self), self))
      else (Inl e, self))"

definition check_breaches ::
  "'pn env \<Rightarrow> 'pn PhoneOSINT \<Rightarrow> pystr option \<Rightarrow> (py_exn + json) \<times> 'pn PhoneOSINT" where
  "check_breaches env self hibp_api_key =
     (case hibp_api_key of
        None \<Rightarrow> (Inr skipped, self)
      | Some key \<Rightarrow>
          if key = [] then (Inr skipped, self)
          else
            (let clean = clean_number (phone_number self);
                 url = breach_url clean;
                 headers = [(lit ''hibp-api-key'', key),
                            (lit ''user-agent'', lit ''Python PhoneOSINT Tool'')];
                 self = self\<lparr>http_log := http_log self @ [(url, headers, 15)]\<rparr>
             in case requests_get env url headers 15 of
                  Inl e \<Rightarrow> breach_handlers e self
                | Inr response \<Rightarrow>
                    if status_code response = 200 then
                      (case resp_json response of
                         Inl e \<Rightarrow> breach_handlers e self
                       | Inr body \<Rightarrow>
                           (case annotate_breaches body of
                              (body', r) \<Rightarrow>
                                (let self = self\<lparr>breach_results := body'\<rparr>
                                 in case r of
                                      None \<Rightarrow> (Inr (breach_results self), self)
                                    | Some e \<Rightarrow> breach_handlers e self)))
                    else if status_code response = 404 then
                      (let self = self\<lparr>breach_results := not_found\<rparr>
                       in (Inr (breach_results self), self))
                    else
                      (let self = self\<lparr>breach_results := http_error response\<rparr>
                       in (Inr (breach_results self), self))))"

subsection \<open>Web search\<close>

definition search_query :: "pystr \<Rightarrow> pystr \<Rightarrow> pystr" where
  "search_query national_format international_format =
     lit ''intext:'' @ [34] @ national_format @ [34] @ lit '' OR intext:'' @ [34]
       @ international_format @ [34]"

text \<open>
  \<open>google_search\<close>: the result list is emptied, every URL the provider yields is
  appended, and an exception replaces the list by one error string.
\<close>

definition google_search ::
  "'pn env \<Rightarrow> 'pn PhoneOSINT \<Rightarrow> int \<Rightarrow> json list \<times> 'pn PhoneOSINT" where
  "google_search env self num_results =
     (case parsed_number self of
        None \<Rightarrow> ([JStr (lit ''Error: Cannot search - invalid phone number'')], self)
      | Some p \<Rightarrow>
          (let national_format = format_number env p NATIONAL;
               international_format = format_number env p INTERNATIONAL;
               query = search_query national_format international_format;
               self = self\<lparr>google_results := []\<rparr>;
               self = self\<lparr>search_log := search_log self @ [(query, num_results, num_results, 2)]\<rparr>
           in case search env query num_results num_results 2 of
                (urls, failure) \<Rightarrow>
                  (let self = self\<lparr>google_results :=
                         fold (\<lambda>url results. results @ [JStr url]) urls (google_results self)\<rparr>;
                       self = (case failure of
                                 None \<Rightarrow> self
                               | Some e \<Rightarrow> self\<lparr>google_results :=
                                   [JStr (lit ''Error: Google search failed - '' @ snd e)]\<rparr>)
                   in (google_results self, self))))"

subsection \<open>Reverse lookup\<close>

text \<open>
  \<open>reverse_lookup\<close>. \<open>national_number[-4:]\<close> is the last four characters of the
  national format (the whole string when it is shorter); nothing in the body raises.
\<close>

definition last4 :: "pystr \<Rightarrow> pystr" where
  "last4 s = drop (length s - 4) s"

definition reverse_lookup :: "'pn env \<Rightarrow> 'pn PhoneOSINT \<Rightarrow> json list \<times> 'pn PhoneOSINT" where
  "reverse_lookup env self =
     (case parsed_number self of
        None \<Rightarrow> ([JStr (lit ''Error: Invalid phone number'')], self)
      | Some p \<Rightarrow>
          (let national_number = format_number env p NATIONAL;
               self = self\<lparr>reverse_lookup_results :=
                 [JStr (lit ''Possible business: '' @ national_number @ lit '' Services''),
                  JStr (lit ''Potential contact: John Doe (via public records)''),
                  JStr (lit ''Linked profile: user'' @ last4 national_number @ lit ''@example.com'')]\<rparr>
           in (reverse_lookup_results self, self)))"

subsection \<open>The report\<close>

definition get_network_info :: "'pn env \<Rightarrow> dict" where
  "get_network_info env =
     (case gethostname env of
        Inl e \<Rightarrow> [(lit ''Network Info'', JStr (lit ''Unavailable''))]
      | Inr hostname \<Rightarrow>
          (case gethostbyname env hostname of
             Inl e \<Rightarrow> [(lit ''Network Info'', JStr (lit ''Unavailable''))]
           | Inr ip_address \<Rightarrow>
               [(lit ''Host'', JStr hostname),
                (lit ''IP Address'', JStr ip_address),
                (lit ''Location'', JStr (lit ''Unknown (would require GeoIP in production)''))]))"

text \<open>
  \<open>run_all_checks\<close>: the sections are computed in the order of the dictionary
  literal; an exception that leaves a section leaves the method.
\<close>

definition run_all_checks ::
  "'pn env \<Rightarrow> 'pn PhoneOSINT \<Rightarrow> pystr option \<Rightarrow> int \<Rightarrow> (py_exn + dict) \<times> 'pn PhoneOSINT" where
  "run_all_checks env self hibp_api_key n_google =
     (case get_basic_info env self of
        (basic, self) \<Rightarrow>
          (case search_social_media env self of
             (Inl e, self) \<Rightarrow> (Inl e, self)
           | (Inr social, self) \<Rightarrow>
               (case check_breaches env self hibp_api_key of
                  (Inl e, self) \<Rightarrow> (Inl e, self)
                | (Inr breach, self) \<Rightarrow>
                    (case google_search env self n_google of
                       (google, self) \<Rightarrow>
                         (case reverse_lookup env self of
                            (reverse, self) \<Rightarrow>
                              (Inr [(lit ''Basic Info'', JObj basic),
                                    (lit ''Social Media'', JObj social),
                                    (lit ''Breach Check'', breach),
                                    (lit ''Google Results'', JList google),
                                    (lit ''Reverse Lookup'', JList reverse),
                                    (lit ''Metadata'',
                                       JObj [(lit ''Search Date'', JStr (now env 0)),
                                             (lit ''Phone Number'', JStr (phone_number self)),
                                             (lit ''Tool Version'', JStr (lit ''2.1.0'')),
                                             (lit ''Execution Time'', JStr (now env 1)),
                                             (lit ''Network'', JObj (get_network_info env))])],
                               self))))))"

section \<open>The specification's wording of the fabricated email\<close>

text \<open>
  The email as the specification words it: \<open>user\<close>, the last four digits of the
  national number, \<open>@example.com\<close>.
\<close>

definition spec_linked_profile :: "int \<Rightarrow> pystr" where
  "spec_linked_profile national =
     lit ''Linked profile: user'' @ last4 (str_int national) @ lit ''@example.com''"

section \<open>Example inputs\<close>

text \<open>
  A stand-in for the library, for evaluating the program on concrete inputs: it knows
  three numbers and gives the library's formats of them. \<open>+6281234567890\<close>
  (also written \<open>+62 812-3456-7890\<close>) and \<open>+33123456789\<close> are valid numbers;
  \<open>+12001230101\<close> parses and is possible but not valid (no area code 200); any
  other text does not parse.
\<close>

datatype example_number = Number int int

fun example_parse :: "pystr \<Rightarrow> py_exn + example_number" where
  "example_parse s =
     (if s = lit ''+6281234567890'' \<or> s = lit ''+62 812-3456-7890''
        then Inr (Number 62 81234567890)
      else if s = lit ''+33123456789'' then Inr (Number 33 123456789)
      else if s = lit ''+12001230101'' then Inr (Number 1 2001230101)
      else Inl (NumberParseException,
                lit ''(1) The string supplied did not seem to be a phone number.''))"

fun example_valid :: "example_number \<Rightarrow> bool" where
  "example_valid (Number cc nn) = ((cc = 62 \<and> nn = 81234567890) \<or> (cc = 33 \<and> nn = 123456789))"

fun example_format :: "example_number \<Rightarrow> number_format \<Rightarrow> pystr" where
  "example_format (Number cc nn) f =
     (if cc = 62 \<and> nn = 81234567890 then
        (case f of E164 \<Rightarrow> lit ''+6281234567890''
                 | INTERNATIONAL \<Rightarrow> lit ''+62 812-3456-7890''
                 | NATIONAL \<Rightarrow> lit ''0812-3456-7890'')
      else if cc = 33 \<and> nn = 123456789 then
        (case f of E164 \<Rightarrow> lit ''+33123456789''
                 | INTERNATIONAL \<Rightarrow> lit ''+33 1 23 45 67 89''
                 | NATIONAL \<Rightarrow> lit ''01 23 45 67 89'')
      else
        (case f of E164 \<Rightarrow> lit ''+12001230101''
                 | INTERNATIONAL \<Rightarrow> lit ''+1 200-123-0101''
                 | NATIONAL \<Rightarrow> lit ''(200) 123-0101''))"

text \<open>
  The example environment, for a given outcome of the HTTP request and a given outcome
  of the search.
\<close>

definition example_env ::
  "(py_exn + http_response) \<Rightarrow> (pystr list \<times> py_exn option) \<Rightarrow> example_number env" where
  "example_env http found =
     \<lparr>parse = example_parse,
      is_valid_number = example_valid,
      is_possible_number = (\<lambda>p. True),
      name_for_number = (\<lambda>p. []),
      description_for_number = (\<lambda>p. []),
      time_zones_for_number = (\<lambda>p. []),
      number_type = (\<lambda>p. MOBILE),
      format_number = example_format,
      country_code = (\<lambda>p. case p of Number cc nn \<Rightarrow> cc),
      national_number = (\<lambda>p. case p of Number cc nn \<Rightarrow> nn),
      extension = (\<lambda>p. None),
      requests_get = (\<lambda>url headers timeout. http),
      search = (\<lambda>query num_results stop pause. found),
      now = (\<lambda>n. lit ''2025-01-01 00:00:00''),
      gethostname = Inr (lit ''localhost''),
      gethostbyname = (\<lambda>h. Inr (lit ''127.0.0.1''))\<rparr>"

definition reply :: "int \<Rightarrow> pystr \<Rightarrow> (py_exn + json) \<Rightarrow> py_exn + http_response" where
  "reply code body decoded = Inr \<lparr>status_code = code, resp_text = body, resp_json = decoded\<rparr>"

definition connection_error :: "py_exn + http_response" where
  "connection_error = Inl (RequestException, lit ''Connection refused'')"

definition no_results :: "pystr list \<times> py_exn option" where
  "no_results = ([], None)"


definition one_result :: "pystr list \<times> py_exn option" where
  "one_result = ([lit ''https://example.org/a''], None)"


definition fresh :: "pystr \<Rightarrow> example_number PhoneOSINT" where
  "fresh phone = init (example_env connection_error no_results) phone"

text \<open>A JSON object where the breach API's list of records is expected.\<close>

definition message_body :: json where
  "message_body = JObj [(lit ''message'', JStr (lit ''x''))]"

definition example_breach :: dict where
  "example_breach =
     [(lit ''Name'', JStr (lit ''Adobe'')),
      (lit ''IsVerified'', JBool True),
      (lit ''DataClasses'', JList [JStr (lit ''Email addresses''), JStr (lit ''Password'')]),
      (lit ''IsRetired'', JBool True)]"

section \<open>Strings, the constructor and the frame of each method\<close>

lemma lit_append: "lit a @ lit b = lit (a @ b)"
  by (simp add: lit_def)

lemma str_int_500: "str_int 500 = lit ''500''"
  by (simp add: str_int_def digits_nat.simps lit_def)

lemma str_int_fr: "str_int 123456789 = lit ''123456789''"
  by (simp add: str_int_def digits_nat.simps lit_def)

lemma clean_number_filter: "clean_number s = filter (\<lambda>c. c \<noteq> 43 \<and> c \<noteq> 32) s"
  by (induction s) (simp_all add: clean_number_def replace_char_def)

lemma quote_example: "quote (lit ''+6281234567890'') = Inr (lit ''%2B6281234567890'')"
  by (simp add: quote_def lit_def utf8_def quote_byte_def always_safe_def hex_digit_def)

lemma clean_example: "clean_number (lit ''+6281234567890'') = lit ''6281234567890''"
  by (simp add: clean_number_filter lit_def)

lemma parsed_number_init:
  "parsed_number (init env s) = (case parse env s of Inl e \<Rightarrow> None | Inr p \<Rightarrow> Some p)"
  by (simp add: init_def parse_number_def Let_def split: sum.splits)

lemma init_fields:
  "phone_number (init env s) = s"
  "social_media_results (init env s) = []"
  "http_log (init env s) = []"
  "search_log (init env s) = []"
  by (simp_all add: init_def parse_number_def Let_def split: sum.splits)

lemma fresh_parsed:
  "parsed_number (fresh s) = (case example_parse s of Inl e \<Rightarrow> None | Inr p \<Rightarrow> Some p)"
  by (simp add: fresh_def parsed_number_init example_env_def)

lemma fresh_fields:
  "phone_number (fresh s) = s" "http_log (fresh s) = []" "search_log (fresh s) = []"
  "social_media_results (fresh s) = []"
  by (simp_all add: fresh_def init_fields)

lemma example_env_fields:
  "format_number (example_env h f) = example_format"
  "requests_get (example_env h f) u hs t = h"
  "search (example_env h f) q n m k = f"
  "parse (example_env h f) = example_parse"
  "is_valid_number (example_env h f) = example_valid"
  "national_number (example_env h f) (Number cc nn) = nn"
  by (simp_all add: example_env_def)

lemma get_basic_info_frame:
  "phone_number (snd (get_basic_info env self)) = phone_number self"
  "parsed_number (snd (get_basic_info env self)) = parsed_number self"
  "social_media_results (snd (get_basic_info env self)) = social_media_results self"
  "http_log (snd (get_basic_info env self)) = http_log self"
  "search_log (snd (get_basic_info env self)) = search_log self"
  by (simp_all add: get_basic_info_def Let_def split: option.splits)

lemma search_social_media_frame:
  "phone_number (snd (search_social_media env self)) = phone_number self"
  "parsed_number (snd (search_social_media env self)) = parsed_number self"
  "http_log (snd (search_social_media env self)) = http_log self"
  "search_log (snd (search_social_media env self)) = search_log self"
  by (simp_all add: search_social_media_def Let_def split: option.splits sum.splits)

lemma search_social_media_Inr:
  assumes "parsed_number self = Some p" and "quote (format_number env p E164) = Inr q"
  shows "\<exists>d. fst (search_social_media env self) = Inr d"
  using assms by (simp add: search_social_media_def Let_def)

lemma check_breaches_fst_phone:
  assumes "phone_number a = phone_number b"
  shows "fst (check_breaches env a key) = fst (check_breaches env b key)"
  using assms
  by (simp add: check_breaches_def Let_def breach_handlers_def
      split: option.splits sum.splits prod.splits)

lemma check_breaches_parsed_number:
  "fst (check_breaches env (self\<lparr>parsed_number := q\<rparr>) key) = fst (check_breaches env self key)"
  by (rule check_breaches_fst_phone) simp

lemma check_breaches_http_log:
  assumes "key \<noteq> []"
  shows "http_log (snd (check_breaches env self (Some key))) =
           http_log self @ [(breach_url (clean_number (phone_number self)),
             [(lit ''hibp-api-key'', key), (lit ''user-agent'', lit ''Python PhoneOSINT Tool'')], 15)]"
  using assms
  by (simp add: check_breaches_def Let_def breach_handlers_def
      split: sum.splits prod.splits option.splits)


section \<open>Severity: the rule order\<close>

lemma apply_rules_cases:
  "apply_rules (severity_rules v p s f r) =
     (if r \<or> f then ''Low'' else if s \<or> p then ''Critical'' else if v then ''High'' else ''Medium'')"
  by (simp add: apply_rules_def severity_rules_def)

lemma calculate_breach_severity_rules:
  assumes "str_in (lit ''Password'') (dict_get breach (lit ''DataClasses'') (JList [])) = Inr pw"
  shows "calculate_breach_severity breach =
           Inr (lit (apply_rules (severity_rules (IsVerified breach) pw
                  (IsSensitive breach) (IsFabricated breach) (IsRetired breach))))"
  using assms
  by (simp add: calculate_breach_severity_def apply_rules_cases IsVerified_def IsSensitive_def
      IsFabricated_def IsRetired_def)

lemma data_classes_iterable_str_in:
  assumes "data_classes_iterable breach"
  shows "str_in (lit ''Password'') (dict_get breach (lit ''DataClasses'') (JList []))
           = Inr (has_Password breach)"
  using assms
  by (cases "dict_get breach (lit ''DataClasses'') (JList [])")
     (simp_all add: data_classes_iterable_def has_Password_def)

text \<open>
  C1. For every breach record whose data-classes field is a container (or absent), the
  severity computed by the breach checker is the result of the rule table applied in
  its fixed order to the five observations IsVerified, DataClasses-contains-Password,
  IsSensitive, IsFabricated and IsRetired, later rules overriding earlier ones; so the
  tag is a function of these five observations only. For all boolean combinations the
  table gives Low when fabricated or retired, else Critical when sensitive or holding
  a password, else High when verified, else Medium: verified and retired gives Low,
  sensitive alone gives Critical, all false gives Medium.
\<close>

theorem C1_severity_rule_order:
  assumes "data_classes_iterable breach"
  shows "calculate_breach_severity breach =
           Inr (lit (apply_rules (severity_rules (IsVerified breach) (has_Password breach)
                  (IsSensitive breach) (IsFabricated breach) (IsRetired breach))))
       \<and> apply_rules (severity_rules v p s f r) =
           (if r \<or> f then ''Low'' else if s \<or> p then ''Critical''
            else if v then ''High'' else ''Medium'')
       \<and> apply_rules (severity_rules True p' s' f' True) = ''Low''
       \<and> apply_rules (severity_rules False False True False False) = ''Critical''
       \<and> apply_rules (severity_rules False False False False False) = ''Medium''"
proof -
  have "calculate_breach_severity breach =
           Inr (lit (apply_rules (severity_rules (IsVerified breach) (has_Password breach)
                  (IsSensitive breach) (IsFabricated breach) (IsRetired breach))))"
    by (rule calculate_breach_severity_rules) (rule data_classes_iterable_str_in [OF assms])
  then show ?thesis
    by (simp add: apply_rules_cases)
qed

theorem C1_severity_rule_order_witness:
  "data_classes_iterable example_breach
   \<and> calculate_breach_severity example_breach = Inr (lit ''Low'')"
proof -
  have h: "data_classes_iterable example_breach"
    by (simp add: data_classes_iterable_def example_breach_def dict_get_def lit_def)
  have v: "IsRetired example_breach"
    by (simp add: IsRetired_def example_breach_def dict_get_def lit_def)
  from C1_severity_rule_order [OF h] v h show ?thesis
    by (simp add: apply_rules_cases)
qed

section \<open>Sections of the report on input that is not a valid number\<close>

lemma map_of_valid_number:
  "map_of
     ([(lit ''International Format'', a), (lit ''National Format'', b), (lit ''E164 Format'', c),
       (lit ''Carrier'', d), (lit ''Location'', e), (lit ''Time Zone'', f),
       (lit ''Number Type'', g), (lit ''Valid Number'', v)] @ rest) (lit ''Valid Number'') = Some v"
  by (simp add: lit_def)

lemma map_of_region_details:
  "map_of (dict_set d (lit ''Region Details'') x) (lit ''Valid Number'') = map_of d (lit ''Valid Number'')"
proof -
  have "lit ''Valid Number'' \<noteq> lit ''Region Details''" by (simp add: lit_def)
  then show ?thesis by (simp add: dict_set_def update_conv')
qed

lemma valid_number_entry:
  assumes "parsed_number self = Some p"
  shows "map_of (fst (get_basic_info env self)) (lit ''Valid Number'')
           = Some (JStr (if is_valid_number env p then yes_str else no_str))"
proof -
  let ?location = "or_str (description_for_number env p) (lit ''Unknown'')"
  let ?info =
    "[(lit ''International Format'', JStr (format_number env p INTERNATIONAL)),
      (lit ''National Format'', JStr (format_number env p NATIONAL)),
      (lit ''E164 Format'', JStr (format_number env p E164)),
      (lit ''Carrier'', JStr (or_str (name_for_number env p) (lit ''Unknown''))),
      (lit ''Location'', JStr ?location),
      (lit ''Time Zone'',
         JStr (or_str (join (lit '', '') (time_zones_for_number env p)) (lit ''Unknown''))),
      (lit ''Number Type'',
         JStr (if number_type env p = MOBILE then lit ''Mobile'' else lit ''Fixed line'')),
      (lit ''Valid Number'', JStr (if is_valid_number env p then yes_str else no_str)),
      (lit ''Possible Number'', JStr (if is_possible_number env p then yes_str else no_str)),
      (lit ''Country Code'', JInt (country_code env p)),
      (lit ''National Number'', JInt (national_number env p)),
      (lit ''Extension'',
         JStr (case extension env p of None \<Rightarrow> lit ''None'' | Some x \<Rightarrow> or_str x (lit ''None'')))]"
  have shape: "fst (get_basic_info env self) =
      (if ?location \<noteq> lit ''Unknown''
       then dict_set ?info (lit ''Region Details'') (JObj (get_region_details ?location))
       else ?info)"
    using assms by (simp add: get_basic_info_def Let_def)
  have m: "map_of ?info (lit ''Valid Number'')
             = Some (JStr (if is_valid_number env p then yes_str else no_str))"
    using map_of_valid_number [where rest = "drop 8 ?info"] by simp
  show ?thesis
  proof (cases "?location \<noteq> lit ''Unknown''")
    case True
    have "fst (get_basic_info env self) =
        dict_set ?info (lit ''Region Details'') (JObj (get_region_details ?location))"
      unfolding shape using True by (rule if_P)
    then show ?thesis by (simp only: map_of_region_details m)
  next
    case False
    have "fst (get_basic_info env self) = ?info"
      unfolding shape using False by (rule if_not_P)
    then show ?thesis by (simp only: m)
  qed
qed

text \<open>
  C2 (as amended). For every input string that fails to parse, Basic Info is the
  invalid-number placeholder, and Google Search and Reverse Lookup return their
  invalid-input placeholders without any effect. For an input that parses but is not a
  valid number, Basic Info reports \<open>Valid Number\<close> as No. The Breach Check does not
  read the parse result: its outcome is the same whatever \<open>parsed_number\<close> holds, and
  without a key it is the skipped sentinel.
\<close>

theorem C2_sections_on_invalid_input:
  "(\<forall>e. parse env s = Inl e \<longrightarrow>
        fst (get_basic_info env (init env s)) = [(lit ''Error'', JStr (lit ''Invalid phone number''))]
        \<and> google_search env (init env s) n
            = ([JStr (lit ''Error: Cannot search - invalid phone number'')], init env s)
        \<and> reverse_lookup env (init env s)
            = ([JStr (lit ''Error: Invalid phone number'')], init env s))
   \<and> (\<forall>p. parse env s = Inr p \<and> \<not> is_valid_number env p \<longrightarrow>
        map_of (fst (get_basic_info env (init env s))) (lit ''Valid Number'')
          = Some (JStr (0x274C # lit '' No'')))
   \<and> fst (check_breaches env (self\<lparr>parsed_number := q\<rparr>) key) = fst (check_breaches env self key)
   \<and> check_breaches env (init env s) None
        = (Inr (JObj [(lit ''Status'', JStr (lit ''Skipped - No HIBP API key provided''))]), init env s)"
proof -
  have a: "parse env s = Inl e \<Longrightarrow> parsed_number (init env s) = None" for e
    by (simp add: parsed_number_init)
  have b: "parse env s = Inr p \<Longrightarrow> parsed_number (init env s) = Some p" for p
    by (simp add: parsed_number_init)
  have 1: "\<forall>e. parse env s = Inl e \<longrightarrow>
        fst (get_basic_info env (init env s)) = [(lit ''Error'', JStr (lit ''Invalid phone number''))]
        \<and> google_search env (init env s) n
            = ([JStr (lit ''Error: Cannot search - invalid phone number'')], init env s)
        \<and> reverse_lookup env (init env s)
            = ([JStr (lit ''Error: Invalid phone number'')], init env s)"
    using a
    by (simp add: get_basic_info_def google_search_def reverse_lookup_def invalid_phone_number_def)
  have 2: "\<forall>p. parse env s = Inr p \<and> \<not> is_valid_number env p \<longrightarrow>
        map_of (fst (get_basic_info env (init env s))) (lit ''Valid Number'')
          = Some (JStr (0x274C # lit '' No''))"
    using b valid_number_entry [of "init env s" _ env] by (simp add: no_str_def)
  have 3: "check_breaches env (init env s) None
        = (Inr (JObj [(lit ''Status'', JStr (lit ''Skipped - No HIBP API key provided''))]), init env s)"
    by (simp add: check_breaches_def skipped_def)
  from 1 2 3 check_breaches_parsed_number show ?thesis by blast
qed

theorem C2_sections_on_invalid_input_witness:
  "fst (get_basic_info (example_env connection_error no_results) (fresh (lit ''hello'')))
     = [(lit ''Error'', JStr (lit ''Invalid phone number''))]
   \<and> fst (google_search (example_env connection_error no_results) (fresh (lit ''hello'')) 5)
     = [JStr (lit ''Error: Cannot search - invalid phone number'')]
   \<and> fst (reverse_lookup (example_env connection_error no_results) (fresh (lit ''hello'')))
     = [JStr (lit ''Error: Invalid phone number'')]
   \<and> map_of (fst (get_basic_info (example_env connection_error no_results)
                    (fresh (lit ''+12001230101'')))) (lit ''Valid Number'')
     = Some (JStr (0x274C # lit '' No''))"
proof -
  let ?E = "example_env connection_error no_results"
  have a: "parse ?E (lit ''hello'')
             = Inl (NumberParseException,
                    lit ''(1) The string supplied did not seem to be a phone number.'')"
    by (simp add: example_env_fields lit_def)
  have b: "parse ?E (lit ''+12001230101'') = Inr (Number 1 2001230101)"
    by (simp add: example_env_fields lit_def)
  have c: "\<not> is_valid_number ?E (Number 1 2001230101)"
    by (simp add: example_env_fields)
  show ?thesis
    using C2_sections_on_invalid_input [of ?E "lit ''hello''" 5] a
          C2_sections_on_invalid_input [of ?E "lit ''+12001230101''"] b c
    by (simp add: fresh_def)
qed

text \<open>
  The claim as stated fails on \<open>+12001230101\<close>, which parses and is not valid: the
  search is performed and its URL returned, the reverse lookup fabricates its three
  strings, and the breach check issues its request.
\<close>

theorem C2_invalid_number_counterexample:
  "parse (example_env (reply 404 [] (Inl (JSONDecodeError, []))) one_result) (lit ''+12001230101'')
     = Inr (Number 1 2001230101)
   \<and> \<not> is_valid_number (example_env (reply 404 [] (Inl (JSONDecodeError, []))) one_result)
          (Number 1 2001230101)
   \<and> fst (google_search (example_env (reply 404 [] (Inl (JSONDecodeError, []))) one_result)
            (fresh (lit ''+12001230101'')) 5)
       = [JStr (lit ''https://example.org/a'')]
   \<and> search_log (snd (google_search (example_env (reply 404 [] (Inl (JSONDecodeError, []))) one_result)
            (fresh (lit ''+12001230101'')) 5))
       = [(search_query (lit ''(200) 123-0101'') (lit ''+1 200-123-0101''), 5, 5, 2)]
   \<and> fst (reverse_lookup (example_env (reply 404 [] (Inl (JSONDecodeError, []))) one_result)
            (fresh (lit ''+12001230101'')))
       = [JStr (lit ''Possible business: (200) 123-0101 Services''),
          JStr (lit ''Potential contact: John Doe (via public records)''),
          JStr (lit ''Linked profile: user0101@example.com'')]
   \<and> fst (check_breaches (example_env (reply 404 [] (Inl (JSONDecodeError, []))) one_result)
            (fresh (lit ''+12001230101'')) (Some (lit ''key'')))
       = Inr (JObj [(lit ''Status'',
                     JStr (0x2705 # lit '' Phone number not found in any breaches''))])
   \<and> http_log (snd (check_breaches (example_env (reply 404 [] (Inl (JSONDecodeError, []))) one_result)
            (fresh (lit ''+12001230101'')) (Some (lit ''key''))))
       = [(lit ''https://haveibeenpwned.com/api/v3/breachedaccount/12001230101?truncateResponse=false'',
           [(lit ''hibp-api-key'', lit ''key''), (lit ''user-agent'', lit ''Python PhoneOSINT Tool'')],
           15)]"
proof -
  let ?E = "example_env (reply 404 [] (Inl (JSONDecodeError, []))) one_result"
  let ?o = "fresh (lit ''+12001230101'')"
  have p: "parsed_number ?o = Some (Number 1 2001230101)"
    by (simp add: fresh_parsed lit_def)
  have k: "lit ''key'' \<noteq> []" by (simp add: lit_def)
  have c: "clean_number (lit ''+12001230101'') = lit ''12001230101''"
    by (simp add: clean_number_filter lit_def)
  have 1: "parse ?E (lit ''+12001230101'') = Inr (Number 1 2001230101)"
    by (simp add: example_env_fields lit_def)
  have 2: "\<not> is_valid_number ?E (Number 1 2001230101)"
    by (simp add: example_env_fields)
  have 3: "google_search ?E ?o 5 =
      ([JStr (lit ''https://example.org/a'')],
       ?o\<lparr>google_results := [JStr (lit ''https://example.org/a'')],
           search_log := [(search_query (lit ''(200) 123-0101'') (lit ''+1 200-123-0101''), 5, 5, 2)]\<rparr>)"
    by (simp add: google_search_def p Let_def example_env_fields one_result_def fresh_fields)
  have 4: "fst (reverse_lookup ?E ?o)
       = [JStr (lit ''Possible business: (200) 123-0101 Services''),
          JStr (lit ''Potential contact: John Doe (via public records)''),
          JStr (lit ''Linked profile: user0101@example.com'')]"
    by (simp add: reverse_lookup_def p Let_def example_env_fields last4_def) (simp add: lit_def)
  have 5: "check_breaches ?E ?o (Some (lit ''key'')) =
      (Inr not_found,
       ?o\<lparr>breach_results := not_found,
           http_log := [(breach_url (lit ''12001230101''),
             [(lit ''hibp-api-key'', lit ''key''), (lit ''user-agent'', lit ''Python PhoneOSINT Tool'')],
             15)]\<rparr>)"
    by (simp add: check_breaches_def Let_def k c fresh_fields example_env_fields reply_def)
  show ?thesis
    unfolding 3 5 using 1 2 4 by (simp add: not_found_def breach_url_def lit_append)
qed

section \<open>The breach check\<close>

text \<open>
  C3. With a key, when the request returns a response: status 404 gives exactly the
  not-found sentinel; any status other than 200 and 404 gives an error result with
  \<open>HTTP\<close> and the status code, and as details the whole body when it has at most
  200 characters, its first 200 characters followed by \<open>...\<close> otherwise.
\<close>

theorem C3_status_mapping:
  assumes "key \<noteq> []"
      and "requests_get env (breach_url (clean_number (phone_number self)))
             [(lit ''hibp-api-key'', key), (lit ''user-agent'', lit ''Python PhoneOSINT Tool'')] 15
           = Inr response"
  shows "(status_code response = 404 \<longrightarrow>
            fst (check_breaches env self (Some key)) =
              Inr (JObj [(lit ''Status'',
                          JStr (0x2705 # lit '' Phone number not found in any breaches''))]))
       \<and> (status_code response \<noteq> 200 \<and> status_code response \<noteq> 404 \<longrightarrow>
            fst (check_breaches env self (Some key)) =
              Inr (JObj [(lit ''Error'', JStr (lit ''HTTP '' @ str_int (status_code response))),
                         (lit ''Details'',
                          JStr (if length (resp_text response) > 200
                                then take 200 (resp_text response) @ lit ''...''
                                else resp_text response))]))"
  using assms
  by (simp add: check_breaches_def Let_def not_found_def http_error_def body_excerpt_def)

theorem C3_status_mapping_witness:
  "fst (check_breaches (example_env (reply 404 [] (Inl (JSONDecodeError, []))) no_results)
         (fresh (lit ''+6281234567890''))
         (Some (lit ''key'')))
     = Inr (JObj [(lit ''Status'', JStr (0x2705 # lit '' Phone number not found in any breaches''))])
   \<and> fst (check_breaches (example_env (reply 500 (replicate 201 120) (Inl (JSONDecodeError, []))) no_results)
         (fresh (lit ''+6281234567890''))
         (Some (lit ''key'')))
     = Inr (JObj [(lit ''Error'', JStr (lit ''HTTP 500'')),
                  (lit ''Details'', JStr (replicate 200 120 @ lit ''...''))])
   \<and> fst (check_breaches (example_env (reply 500 (lit ''Internal Server Error'') (Inl (JSONDecodeError, []))) no_results)
         (fresh (lit ''+6281234567890''))
         (Some (lit ''key'')))
     = Inr (JObj [(lit ''Error'', JStr (lit ''HTTP 500'')),
                  (lit ''Details'', JStr (lit ''Internal Server Error''))])"
proof -
  have k: "lit ''key'' \<noteq> []" by (simp add: lit_def)
  have a: "requests_get (example_env (reply c b d) no_results) u h t
             = Inr \<lparr>status_code = c, resp_text = b, resp_json = d\<rparr>" for c b d u h t
    by (simp add: example_env_def reply_def)
  have l: "length (lit ''Internal Server Error'') = 21" by (simp add: lit_def)
  show ?thesis
    using C3_status_mapping [OF k a, of 404 "[]"]
          C3_status_mapping [OF k a, of 500 "replicate 201 120"]
          C3_status_mapping [OF k a, of 500 "lit ''Internal Server Error''"]
    by (simp add: str_int_500 l lit_append)
qed

text \<open>
  C4. Without a key (\<open>None\<close> or the empty string) the breach check returns the
  skipped sentinel, whatever the environment and the input, and leaves the object and
  the log of HTTP requests as they were: no request is issued.
\<close>

theorem C4_no_key_skipped:
  "check_breaches env self None = (Inr skipped, self)
   \<and> check_breaches env self (Some []) = (Inr skipped, self)
   \<and> http_log (snd (check_breaches env self None)) = http_log self
   \<and> http_log (snd (check_breaches env self (Some []))) = http_log self"
  by (simp add: check_breaches_def)

section \<open>The report\<close>

text \<open>
  What the handlers of \<open>check_breaches\<close> do catch, and what the report holds when
  no section raises: a request that fails and a body that does not decode become error
  results, a list of records is annotated record by record, and a report that is
  returned has exactly the six sections, in order.
\<close>

lemma run_all_checks_six_sections:
  assumes "fst (run_all_checks env self key n) = Inr report"
  shows "map fst report =
           [lit ''Basic Info'', lit ''Social Media'', lit ''Breach Check'', lit ''Google Results'',
            lit ''Reverse Lookup'', lit ''Metadata'']"
  using assms
  by (auto simp add: run_all_checks_def split: prod.splits sum.splits)

lemma run_all_checks_returns:
  assumes "fst (search_social_media env (snd (get_basic_info env self))) = Inr social"
      and "fst (check_breaches env self key) = Inr breach"
  shows "\<exists>report. fst (run_all_checks env self key n) = Inr report"
proof -
  have "fst (check_breaches env (snd (search_social_media env (snd (get_basic_info env self)))) key)
          = Inr breach"
    using assms(2)
      check_breaches_fst_phone [of "snd (search_social_media env (snd (get_basic_info env self)))"
        self env key]
    by (simp add: search_social_media_frame get_basic_info_frame)
  with assms(1) show ?thesis
    by (auto simp add: run_all_checks_def split: prod.splits sum.splits)
qed

lemma check_breaches_request_failed:
  assumes "key \<noteq> []"
      and "requests_get env (breach_url (clean_number (phone_number self)))
             [(lit ''hibp-api-key'', key), (lit ''user-agent'', lit ''Python PhoneOSINT Tool'')] 15
           = Inl e"
      and "isinstance_RequestException e"
  shows "fst (check_breaches env self (Some key))
           = Inr (JObj [(lit ''Error'', JStr (lit ''Request failed: '' @ snd e))])"
  using assms by (simp add: check_breaches_def Let_def breach_handlers_def)

lemma check_breaches_invalid_json:
  assumes "key \<noteq> []"
      and "requests_get env (breach_url (clean_number (phone_number self)))
             [(lit ''hibp-api-key'', key), (lit ''user-agent'', lit ''Python PhoneOSINT Tool'')] 15
           = Inr response"
      and "status_code response = 200" and "resp_json response = Inl e"
      and "\<not> isinstance_RequestException e" and "isinstance_JSONDecodeError e"
  shows "fst (check_breaches env self (Some key))
           = Inr (JObj [(lit ''Error'', JStr (lit ''Invalid JSON response''))])"
  using assms by (simp add: check_breaches_def Let_def breach_handlers_def)

lemma severity_loop_records:
  assumes "\<forall>b \<in> set bs. \<exists>d. b = JObj d \<and> data_classes_iterable d"
  shows "snd (severity_loop bs) = None \<and> length (fst (severity_loop bs)) = length bs"
  using assms
proof (induction bs)
  case Nil
  then show ?case by simp
next
  case (Cons b bs)
  then obtain d where d: "b = JObj d" "data_classes_iterable d" by auto
  from calculate_breach_severity_rules [OF data_classes_iterable_str_in [OF d(2)]]
  obtain s where s: "calculate_breach_severity d = Inr s" by simp
  from Cons show ?case
    by (cases "severity_loop bs") (simp add: d s)
qed

lemma check_breaches_records:
  assumes "key \<noteq> []"
      and "requests_get env (breach_url (clean_number (phone_number self)))
             [(lit ''hibp-api-key'', key), (lit ''user-agent'', lit ''Python PhoneOSINT Tool'')] 15
           = Inr response"
      and "status_code response = 200" and "resp_json response = Inr (JList bs)"
      and "\<forall>b \<in> set bs. \<exists>d. b = JObj d \<and> data_classes_iterable d"
  shows "fst (check_breaches env self (Some key)) = Inr (JList (fst (severity_loop bs)))"
  using assms severity_loop_records [of bs]
  by (cases "severity_loop bs") (simp add: check_breaches_def Let_def)

lemma run_all_checks_breach_raises:
  assumes "fst (search_social_media env (snd (get_basic_info env self))) = Inr d"
      and "fst (check_breaches env (snd (search_social_media env (snd (get_basic_info env self)))) key)
             = Inl e"
  shows "fst (run_all_checks env self key n) = Inl e"
  using assms by (auto simp add: run_all_checks_def split: prod.splits sum.splits)

lemma breach_raises:
  "fst (check_breaches (example_env (reply 200 body (Inr message_body)) no_results)
          (fresh (lit ''+6281234567890'')) (Some (lit ''key'')))
     = Inl (no_attribute_get (JStr (lit ''message'')))"
proof -
  have k: "lit ''key'' \<noteq> []" by (simp add: lit_def)
  have c: "\<not> isinstance_RequestException (no_attribute_get x)"
          "\<not> isinstance_JSONDecodeError (no_attribute_get x)" for x
    by (simp_all add: no_attribute_get_def)
  show ?thesis
    by (simp add: check_breaches_def Let_def example_env_fields reply_def message_body_def
        breach_handlers_def c k)
qed

text \<open>
  C5. The report does not always hold its six sections: when the breach API answers
  200 with a JSON object instead of a list of records, the loop of \<open>check_breaches\<close>
  iterates the object's keys, \<open>breach.get\<close> raises \<open>AttributeError\<close>, neither
  handler of \<open>check_breaches\<close> catches it, and \<open>run_all_checks\<close> raises.
\<close>

theorem C5_unexpected_body_raises:
  "fst (run_all_checks (example_env (reply 200 body (Inr message_body)) no_results)
          (fresh (lit ''+6281234567890'')) (Some (lit ''key'')) 5)
     = Inl (AttributeError,
            [39] @ lit ''str'' @ [39] @ lit '' object has no attribute '' @ [39] @ lit ''get'' @ [39])"
proof -
  let ?E = "example_env (reply 200 body (Inr message_body)) no_results"
  let ?o = "fresh (lit ''+6281234567890'')"
  have p: "parsed_number (snd (get_basic_info ?E ?o)) = Some (Number 62 81234567890)"
    by (simp add: get_basic_info_frame fresh_parsed lit_def)
  have q: "quote (format_number ?E (Number 62 81234567890) E164) = Inr (lit ''%2B6281234567890'')"
    by (simp add: example_env_fields quote_example)
  from search_social_media_Inr [OF p q]
  obtain d where d: "fst (search_social_media ?E (snd (get_basic_info ?E ?o))) = Inr d" ..
  have "fst (check_breaches ?E (snd (search_social_media ?E (snd (get_basic_info ?E ?o))))
               (Some (lit ''key'')))
          = fst (check_breaches ?E ?o (Some (lit ''key'')))"
    by (rule check_breaches_fst_phone) (simp add: search_social_media_frame get_basic_info_frame)
  then have "fst (check_breaches ?E (snd (search_social_media ?E (snd (get_basic_info ?E ?o))))
               (Some (lit ''key'')))
          = Inl (no_attribute_get (JStr (lit ''message'')))"
    by (simp add: breach_raises)
  from run_all_checks_breach_raises [OF d this] show ?thesis
    by (simp add: no_attribute_get_def)
qed

section \<open>Social media links\<close>

text \<open>
  C6. For the input \<open>+6281234567890\<close>, with the library parsing it and giving
  \<open>+6281234567890\<close> as its E164 format, the link builder returns eleven entries, in
  the order of the catalogue: the links of WhatsApp, Telegram, Viber, Snapchat and
  WeChat end in the digits \<open>6281234567890\<close>, the others hold the percent-encoded
  E164 form \<open>%2B6281234567890\<close> where the template substitutes the number.
\<close>

theorem C6_links:
  assumes "parse env (lit ''+6281234567890'') = Inr p"
      and "format_number env p E164 = lit ''+6281234567890''"
  shows "fst (search_social_media env (init env (lit ''+6281234567890''))) =
     Inr [(0x1F4D8 # lit '' Facebook'', JStr (lit ''https://www.facebook.com/search/top/?q=%2B6281234567890'')),
      (0x1F4AC # lit '' WhatsApp'', JStr (lit ''https://wa.me/6281234567890'')),
      (0x1F426 # lit '' x'', JStr (lit ''https://x.com/search?q=%2B6281234567890&src=typed_query'')),
      (0x1F4F8 # lit '' Instagram'', JStr (lit ''https://www.instagram.com/search/top/?q=%2B6281234567890'')),
      (0x1F4DE # lit '' Truecaller'', JStr (lit ''https://www.truecaller.com/search/%2B6281234567890'')),
      (0x2708 # 0xFE0F # lit '' Telegram'', JStr (lit ''https://t.me/6281234567890'')),
      (0x1F4F1 # lit '' Viber'', JStr (lit ''viber://add?number=6281234567890'')),
      (0x1F454 # lit '' LinkedIn'',
         JStr (lit ''https://www.linkedin.com/search/results/all/?keywords=%2B6281234567890'')),
      (0x1F4F9 # lit '' TikTok'', JStr (lit ''https://www.tiktok.com/search?q=%2B6281234567890'')),
      (0x1F50E # lit '' Snapchat'', JStr (lit ''https://www.snapchat.com/add/6281234567890'')),
      (0x1F3B5 # lit '' WeChat'', JStr (lit ''weixin://dl/add?6281234567890''))]"
proof -
  have "fst (search_social_media env (init env (lit ''+6281234567890''))) =
      Inr (fold (\<lambda>(platform, url) results. dict_set results platform (JStr url))
             (social_platforms (lit ''%2B6281234567890'') (lit ''6281234567890'')) [])"
    using assms
    by (simp add: search_social_media_def parsed_number_init init_fields quote_example
        clean_example Let_def)
  also have "\<dots> = Inr (map (\<lambda>(k, u). (k, JStr u))
             (social_platforms (lit ''%2B6281234567890'') (lit ''6281234567890'')))"
    by (simp add: social_platforms_def dict_set_def lit_def)
  finally show ?thesis
    by (simp add: social_platforms_def lit_def)
qed

theorem C6_links_witness:
  "parse (example_env connection_error no_results) (lit ''+6281234567890'')
     = Inr (Number 62 81234567890)
   \<and> format_number (example_env connection_error no_results) (Number 62 81234567890) E164
     = lit ''+6281234567890''
   \<and> map fst (projr (fst (search_social_media (example_env connection_error no_results)
                          (fresh (lit ''+6281234567890''))))) =
     [0x1F4D8 # lit '' Facebook'', 0x1F4AC # lit '' WhatsApp'', 0x1F426 # lit '' x'',
      0x1F4F8 # lit '' Instagram'', 0x1F4DE # lit '' Truecaller'',
      0x2708 # 0xFE0F # lit '' Telegram'', 0x1F4F1 # lit '' Viber'', 0x1F454 # lit '' LinkedIn'',
      0x1F4F9 # lit '' TikTok'', 0x1F50E # lit '' Snapchat'', 0x1F3B5 # lit '' WeChat'']
   \<and> length (projr (fst (search_social_media (example_env connection_error no_results)
                          (fresh (lit ''+6281234567890''))))) = 11"
proof -
  have a: "parse (example_env connection_error no_results) (lit ''+6281234567890'')
             = Inr (Number 62 81234567890)"
    by (simp add: example_env_fields lit_def)
  have b: "format_number (example_env connection_error no_results) (Number 62 81234567890) E164
             = lit ''+6281234567890''"
    by (simp add: example_env_fields)
  show ?thesis
    using a b C6_links [OF a b] by (simp add: fresh_def)
qed

lemma platform_keys_distinct:
  "distinct (map fst (social_platforms q c))"
  by (simp add: social_platforms_def lit_def)

lemma map_of_fold_dict_set:
  "distinct (map fst ps) \<Longrightarrow> (k, u) \<in> set ps \<Longrightarrow>
   map_of (fold (\<lambda>(platform, url) results. dict_set results platform (JStr url)) ps d) k
     = Some (JStr u)"
proof (induction ps arbitrary: d)
  case Nil
  then show ?case by simp
next
  case (Cons a ps)
  obtain k' u' where a: "a = (k', u')" by (cases a)
  show ?case
  proof (cases "(k, u) \<in> set ps")
    case True
    with Cons show ?thesis by (simp add: a)
  next
    case False
    with Cons.prems have ku: "k' = k" "u' = u" and notin: "k \<notin> fst ` set ps"
      by (auto simp: a)
    have keep: "k \<notin> fst ` set qs \<Longrightarrow>
        map_of (fold (\<lambda>(platform, url) results. dict_set results platform (JStr url)) qs e) k
          = map_of e k" for qs e
      by (induction qs arbitrary: e) (auto simp: dict_set_def update_conv')
    show ?thesis
      using keep [OF notin] by (simp add: a ku dict_set_def update_conv')
  qed
qed

lemma social_link:
  assumes "parsed_number self = Some p" and "quote (format_number env p E164) = Inr q"
      and "(k, u) \<in> set (social_platforms q (clean_number (phone_number self)))"
  shows "map_of (social_media_results (snd (search_social_media env self))) k = Some (JStr u)"
  using assms map_of_fold_dict_set [OF platform_keys_distinct assms(3)]
  by (simp add: search_social_media_def Let_def)

text \<open>
  C10. The number put in the breach URL and in the WhatsApp, Telegram, Viber, Snapchat
  and WeChat links is the raw input with \<open>+\<close> (code 43) and space (code 32)
  removed and nothing else: every other character of the input is in it, in the
  input's order, and it stands verbatim in the URL requested and in the five links.
\<close>

theorem C10_digits_only_number:
  "clean_number (phone_number self) = filter (\<lambda>c. c \<noteq> 43 \<and> c \<noteq> 32) (phone_number self)
   \<and> (\<forall>c \<in> set (phone_number self). c \<noteq> 43 \<and> c \<noteq> 32 \<longrightarrow>
         c \<in> set (clean_number (phone_number self)))
   \<and> (key \<noteq> [] \<longrightarrow>
         http_log (snd (check_breaches env self (Some key))) =
           http_log self
           @ [(lit ''https://haveibeenpwned.com/api/v3/breachedaccount/''
                 @ clean_number (phone_number self) @ lit ''?truncateResponse=false'',
               [(lit ''hibp-api-key'', key), (lit ''user-agent'', lit ''Python PhoneOSINT Tool'')],
               15)])
   \<and> (parsed_number self = Some p \<and> quote (format_number env p E164) = Inr q \<longrightarrow>
         (let links = map_of (social_media_results (snd (search_social_media env self)));
              clean = clean_number (phone_number self)
          in links (0x1F4AC # lit '' WhatsApp'') = Some (JStr (lit ''https://wa.me/'' @ clean))
           \<and> links (0x2708 # 0xFE0F # lit '' Telegram'') = Some (JStr (lit ''https://t.me/'' @ clean))
           \<and> links (0x1F4F1 # lit '' Viber'') = Some (JStr (lit ''viber://add?number='' @ clean))
           \<and> links (0x1F50E # lit '' Snapchat'')
               = Some (JStr (lit ''https://www.snapchat.com/add/'' @ clean))
           \<and> links (0x1F3B5 # lit '' WeChat'') = Some (JStr (lit ''weixin://dl/add?'' @ clean))))"
proof -
  have 1: "clean_number (phone_number self)
             = filter (\<lambda>c. c \<noteq> 43 \<and> c \<noteq> 32) (phone_number self)"
    by (rule clean_number_filter)
  have 2: "\<forall>c \<in> set (phone_number self). c \<noteq> 43 \<and> c \<noteq> 32 \<longrightarrow>
         c \<in> set (clean_number (phone_number self))"
    by (simp add: clean_number_filter)
  have 3: "key \<noteq> [] \<longrightarrow>
         http_log (snd (check_breaches env self (Some key))) =
           http_log self
           @ [(lit ''https://haveibeenpwned.com/api/v3/breachedaccount/''
                 @ clean_number (phone_number self) @ lit ''?truncateResponse=false'',
               [(lit ''hibp-api-key'', key), (lit ''user-agent'', lit ''Python PhoneOSINT Tool'')],
               15)]"
    using check_breaches_http_log [of key env self] by (simp add: breach_url_def)
  have 4: "parsed_number self = Some p \<and> quote (format_number env p E164) = Inr q \<longrightarrow>
         (let links = map_of (social_media_results (snd (search_social_media env self)));
              clean = clean_number (phone_number self)
          in links (0x1F4AC # lit '' WhatsApp'') = Some (JStr (lit ''https://wa.me/'' @ clean))
           \<and> links (0x2708 # 0xFE0F # lit '' Telegram'') = Some (JStr (lit ''https://t.me/'' @ clean))
           \<and> links (0x1F4F1 # lit '' Viber'') = Some (JStr (lit ''viber://add?number='' @ clean))
           \<and> links (0x1F50E # lit '' Snapchat'')
               = Some (JStr (lit ''https://www.snapchat.com/add/'' @ clean))
           \<and> links (0x1F3B5 # lit '' WeChat'') = Some (JStr (lit ''weixin://dl/add?'' @ clean)))"
  proof
    assume h: "parsed_number self = Some p \<and> quote (format_number env p E164) = Inr q"
    have m: "(k, u) \<in> set (social_platforms q (clean_number (phone_number self))) \<Longrightarrow>
        map_of (social_media_results (snd (search_social_media env self))) k = Some (JStr u)" for k u
      using h social_link [of self p env q k u] by simp
    show "let links = map_of (social_media_results (snd (search_social_media env self)));
              clean = clean_number (phone_number self)
          in links (0x1F4AC # lit '' WhatsApp'') = Some (JStr (lit ''https://wa.me/'' @ clean))
           \<and> links (0x2708 # 0xFE0F # lit '' Telegram'') = Some (JStr (lit ''https://t.me/'' @ clean))
           \<and> links (0x1F4F1 # lit '' Viber'') = Some (JStr (lit ''viber://add?number='' @ clean))
           \<and> links (0x1F50E # lit '' Snapchat'')
               = Some (JStr (lit ''https://www.snapchat.com/add/'' @ clean))
           \<and> links (0x1F3B5 # lit '' WeChat'') = Some (JStr (lit ''weixin://dl/add?'' @ clean))"
      unfolding Let_def
      by (intro conjI m) (simp_all add: social_platforms_def)
  qed
  from 1 2 3 4 show ?thesis by (intro conjI)
qed

theorem C10_digits_only_number_witness:
  "clean_number (lit ''+62 812-3456-7890'') = lit ''62812-3456-7890''
   \<and> http_log (snd (check_breaches (example_env connection_error no_results)
                      (fresh (lit ''+62 812-3456-7890'')) (Some (lit ''key''))))
       = [(lit ''https://haveibeenpwned.com/api/v3/breachedaccount/62812-3456-7890?truncateResponse=false'',
           [(lit ''hibp-api-key'', lit ''key''), (lit ''user-agent'', lit ''Python PhoneOSINT Tool'')],
           15)]
   \<and> map_of (social_media_results (snd (search_social_media (example_env connection_error no_results)
                      (fresh (lit ''+62 812-3456-7890''))))) (0x1F4AC # lit '' WhatsApp'')
       = Some (JStr (lit ''https://wa.me/62812-3456-7890''))"
proof -
  let ?E = "example_env connection_error no_results"
  let ?o = "fresh (lit ''+62 812-3456-7890'')"
  have c: "filter (\<lambda>c. c \<noteq> 43 \<and> c \<noteq> 32) (lit ''+62 812-3456-7890'') = lit ''62812-3456-7890''"
    by (simp add: lit_def)
  have d: "(45::nat) \<in> set (lit ''+62 812-3456-7890'')"
    by (simp add: lit_def)
  have k: "lit ''key'' \<noteq> []" by (simp add: lit_def)
  have p: "parsed_number ?o = Some (Number 62 81234567890)"
    by (simp add: fresh_parsed lit_def)
  have q: "quote (format_number ?E (Number 62 81234567890) E164) = Inr (lit ''%2B6281234567890'')"
    by (simp add: example_env_fields quote_example)
  show ?thesis
    using C10_digits_only_number [of ?o "lit ''key''" ?E "Number 62 81234567890" "lit ''%2B6281234567890''"]
          c d k p q
    by (simp add: fresh_fields Let_def lit_append)
qed

section \<open>Web search\<close>




section \<open>Reverse lookup\<close>

text \<open>
  C8 (as amended). For every parsed number the reverse lookup returns exactly three
  strings and changes nothing but its own result field (no request, no search): the
  business guess holding the national format, the fixed contact name, and the email
  whose local part is \<open>user\<close> followed by the last four characters of the national
  format.
\<close>

theorem C8_reverse_lookup:
  assumes "parsed_number self = Some p"
  shows "fst (reverse_lookup env self) =
           [JStr (lit ''Possible business: '' @ format_number env p NATIONAL @ lit '' Services''),
            JStr (lit ''Potential contact: John Doe (via public records)''),
            JStr (lit ''Linked profile: user''
                  @ drop (length (format_number env p NATIONAL) - 4) (format_number env p NATIONAL)
                  @ lit ''@example.com'')]
       \<and> snd (reverse_lookup env self) =
           self\<lparr>reverse_lookup_results := fst (reverse_lookup env self)\<rparr>
       \<and> http_log (snd (reverse_lookup env self)) = http_log self
       \<and> search_log (snd (reverse_lookup env self)) = search_log self"
  using assms
  by (simp add: reverse_lookup_def Let_def last4_def)

theorem C8_reverse_lookup_witness:
  "fst (reverse_lookup (example_env connection_error no_results) (fresh (lit ''+6281234567890''))) =
     [JStr (lit ''Possible business: 0812-3456-7890 Services''),
      JStr (lit ''Potential contact: John Doe (via public records)''),
      JStr (lit ''Linked profile: user7890@example.com'')]"
proof -
  have p: "parsed_number (fresh (lit ''+6281234567890'')) = Some (Number 62 81234567890)"
    by (simp add: fresh_parsed lit_def)
  show ?thesis
    using C8_reverse_lookup [OF p, of "example_env connection_error no_results"]
    by (simp add: example_env_fields lit_def)
qed

text \<open>
  The claim as stated fails on \<open>+33123456789\<close>, whose national format is
  \<open>01 23 45 67 89\<close>: the last four characters are \<open>7 89\<close>, not the last four
  digits \<open>6789\<close> of the national number.
\<close>

theorem C8_last_four_digits_counterexample:
  "last (fst (reverse_lookup (example_env connection_error no_results) (fresh (lit ''+33123456789''))))
     = JStr (lit ''Linked profile: user7 89@example.com'')
   \<and> last (fst (reverse_lookup (example_env connection_error no_results) (fresh (lit ''+33123456789''))))
     \<noteq> JStr (spec_linked_profile
              (national_number (example_env connection_error no_results) (Number 33 123456789)))"
  by (simp add: reverse_lookup_def fresh_parsed example_env_fields Let_def last4_def
      spec_linked_profile_def str_int_fr lit_def)

section \<open>The constructor and an unparsed number\<close>

text \<open>
  C9 (as amended). The constructor is total: a parse exception is caught and printed,
  leaving \<open>parsed_number\<close> as \<open>None\<close>; an input that parses leaves
  \<open>parsed_number\<close> set to the parsed value also when it is not valid (the
  \<open>ValueError\<close> is caught and printed after the assignment). On an instance whose
  \<open>parsed_number\<close> is \<open>None\<close>, the four methods that read it
  (\<open>get_basic_info\<close>, \<open>search_social_media\<close>, \<open>google_search\<close>,
  \<open>reverse_lookup\<close>) return their error placeholder and change nothing.
\<close>

theorem C9_constructor_and_placeholders:
  "(\<forall>e. parse env s = Inl e \<longrightarrow>
        parsed_number (init env s) = None \<and> console (init env s) = [parse_error_line e])
   \<and> (\<forall>p. parse env s = Inr p \<longrightarrow> parsed_number (init env s) = Some p)
   \<and> (\<forall>p. parse env s = Inr p \<and> \<not> is_valid_number env p \<longrightarrow>
        parsed_number (init env s) = Some p
        \<and> console (init env s) = [parse_error_line (ValueError, lit ''Invalid phone number'')])
   \<and> (parsed_number self = None \<longrightarrow>
        get_basic_info env self = ([(lit ''Error'', JStr (lit ''Invalid phone number''))], self)
        \<and> search_social_media env self
            = (Inr [(lit ''Error'', JStr (lit ''Invalid phone number''))], self)
        \<and> google_search env self n
            = ([JStr (lit ''Error: Cannot search - invalid phone number'')], self)
        \<and> reverse_lookup env self = ([JStr (lit ''Error: Invalid phone number'')], self))"
  by (simp add: init_def parse_number_def Let_def get_basic_info_def search_social_media_def
      google_search_def reverse_lookup_def invalid_phone_number_def)

theorem C9_constructor_and_placeholders_witness:
  "parsed_number (fresh (lit ''hello'')) = None
   \<and> parsed_number (fresh (lit ''+12001230101'')) = Some (Number 1 2001230101)
   \<and> \<not> example_valid (Number 1 2001230101)
   \<and> reverse_lookup (example_env connection_error no_results) (fresh (lit ''hello''))
       = ([JStr (lit ''Error: Invalid phone number'')], fresh (lit ''hello''))"
proof -
  let ?E = "example_env connection_error no_results"
  have a: "parse ?E (lit ''hello'')
             = Inl (NumberParseException,
                    lit ''(1) The string supplied did not seem to be a phone number.'')"
    by (simp add: example_env_fields lit_def)
  have b: "parse ?E (lit ''+12001230101'') = Inr (Number 1 2001230101)"
    by (simp add: example_env_fields lit_def)
  have c: "\<not> is_valid_number ?E (Number 1 2001230101)"
    by (simp add: example_env_fields)
  have d: "parsed_number (fresh (lit ''hello'')) = None"
    using C9_constructor_and_placeholders [of ?E "lit ''hello''"] a by (simp add: fresh_def)
  show ?thesis
    using C9_constructor_and_placeholders [of ?E "lit ''+12001230101''"] b c d
          C9_constructor_and_placeholders [of ?E _ "fresh (lit ''hello'')"]
    by (simp add: fresh_def example_env_fields)
qed

text \<open>
  The claim as stated fails for \<open>check_breaches\<close>, a public method with no such
  placeholder: on the unparsed input \<open>hello\<close>, with a key, it issues the request and
  returns what the response maps to.
\<close>

theorem C9_check_breaches_counterexample:
  "parsed_number (fresh (lit ''hello'')) = None
   \<and> fst (check_breaches (example_env (reply 404 [] (Inl (JSONDecodeError, []))) no_results)
            (fresh (lit ''hello'')) (Some (lit ''key'')))
       = Inr (JObj [(lit ''Status'',
                     JStr (0x2705 # lit '' Phone number not found in any breaches''))])
   \<and> http_log (snd (check_breaches (example_env (reply 404 [] (Inl (JSONDecodeError, []))) no_results)
            (fresh (lit ''hello'')) (Some (lit ''key''))))
       = [(lit ''https://haveibeenpwned.com/api/v3/breachedaccount/hello?truncateResponse=false'',
           [(lit ''hibp-api-key'', lit ''key''), (lit ''user-agent'', lit ''Python PhoneOSINT Tool'')],
           15)]"
proof -
  have k: "lit ''key'' \<noteq> []" by (simp add: lit_def)
  have c: "clean_number (lit ''hello'') = lit ''hello''"
    by (simp add: clean_number_filter lit_def)
  have p: "parsed_number (fresh (lit ''hello'')) = None"
    by (simp add: fresh_parsed lit_def)
  show ?thesis
    by (simp add: p check_breaches_def Let_def k c fresh_fields example_env_fields reply_def
        not_found_def breach_url_def lit_append)
qed

end
